theory Spec2Isabelle
  imports Complex_Main "HOL-Library.Word"
begin

section \<open>Wire and message types (the frontend's \<^verbatim>\<open>types\<close> module)\<close>

datatype member_status = thinking | complete | member_error

record CouncilMember =
  member_id :: int
  opinion :: string
  score :: real
  status :: member_status

datatype council_stage = opinions | review | synthesis

record CouncilUpdate =
  stage :: council_stage
  members :: "CouncilMember list"
  dissent :: "bool option"

datatype role = user | assistant

record message_metadata =
  council :: "CouncilUpdate option"
  audioUrl :: "string option"

record Message =
  msg_id :: string
  msg_role :: role
  content :: string
  timestamp :: nat
  metadata :: "message_metadata option"

type_synonym ArrayBuffer = "8 word list"

text \<open>
  \<^verbatim>\<open>StreamingChunk\<close> is \<^verbatim>\<open>{type, content, metadata?}\<close>. Every arm of the switch in
  \<^verbatim>\<open>handleStreamingChunk\<close> reads \<^verbatim>\<open>content\<close> through a cast fixed by \<^verbatim>\<open>type\<close>
  (\<^verbatim>\<open>as string\<close>, \<^verbatim>\<open>as ArrayBuffer\<close>, \<^verbatim>\<open>as CouncilUpdate\<close>), so the chunk is a tagged
  union with the payload of the cast. The \<^verbatim>\<open>done\<close> arm never reads the content; the
  chunk's own \<^verbatim>\<open>metadata\<close> is read nowhere. The cast of the parsed frame to
  \<^verbatim>\<open>StreamingChunk\<close> checks nothing, so a frame may carry a \<^verbatim>\<open>type\<close> that no arm of
  the switch names: \<open>other_chunk\<close>.
\<close>

datatype StreamingChunk =
  text_chunk string
| audio_chunk ArrayBuffer
| council_update_chunk CouncilUpdate
| done_chunk
| error_chunk string
| other_chunk

section \<open>The VoiceChat component\<close>

text \<open>
  The six \<^verbatim>\<open>useState\<close> cells of the component, and two logs for the effects its handlers
  have outside React: the lines written with \<^verbatim>\<open>console.error\<close> and the buffers handed to
  \<^verbatim>\<open>audioService.playAudio\<close> (fire and forget).
\<close>

record voice_chat =
  messages :: "Message list"
  isRecording :: bool
  isProcessing :: bool
  currentResponse :: string
  councilUpdate :: "CouncilUpdate option"
  isConnected :: bool
  console :: "string list"
  played :: "ArrayBuffer list"

definition initial_voice_chat :: voice_chat where
  "initial_voice_chat =
     \<lparr>messages = [], isRecording = False, isProcessing = False, currentResponse = [],
      councilUpdate = None, isConnected = False, console = [], played = []\<rparr>"

text \<open>
  A function component is called once per render; the \<^verbatim>\<open>const\<close>s that \<^verbatim>\<open>useState\<close> binds
  in that call hold the cells' values of that render, and the handlers defined in the call
  close over those constants. A handler therefore reads two different things: the
  constants of the render that created it (\<^verbatim>\<open>currentResponse\<close> at line 51 and
  \<^verbatim>\<open>councilUpdate\<close> at line 71 are such reads), and, through an updater function handed
  to a setter (\<^verbatim>\<open>setCurrentResponse(prev => ...)\<close>, \<^verbatim>\<open>setMessages(prev => ...)\<close>), the
  cell itself. The record \<open>scope\<close> holds the two constants that the handlers read.
\<close>

record scope =
  sc_currentResponse :: string
  sc_councilUpdate :: "CouncilUpdate option"

definition render :: "voice_chat \<Rightarrow> scope" where
  "render s = \<lparr>sc_currentResponse = currentResponse s, sc_councilUpdate = councilUpdate s\<rparr>"

text \<open>\<^verbatim>\<open>Date.now().toString()\<close>: the decimal numeral of the clock reading.\<close>

definition digit :: "nat \<Rightarrow> char" where
  "digit d = char_of (48 + d)"

fun toString :: "nat \<Rightarrow> string" where
  "toString n = (if n < 10 then [digit n] else toString (n div 10) @ [digit (n mod 10)])"

text \<open>
  \<^verbatim>\<open>addMessage\<close> (lines 65-74). The clock is read for the id and for the timestamp; \<open>now\<close>
  is that reading. The metadata is built from the \<^verbatim>\<open>councilUpdate\<close> constant of the
  closure's render; the list is extended through an updater, so on the cell.
\<close>

definition addMessage :: "scope \<Rightarrow> nat \<Rightarrow> role \<Rightarrow> string \<Rightarrow> voice_chat \<Rightarrow> voice_chat" where
  "addMessage sc now r c s =
     (let message = \<lparr>msg_id = toString now, msg_role = r, content = c, timestamp = now,
                     metadata = (case sc_councilUpdate sc of
                                   None \<Rightarrow> None
                                 | Some u \<Rightarrow> Some \<lparr>council = Some u, audioUrl = None\<rparr>)\<rparr>
      in s\<lparr>messages := messages s @ [message]\<rparr>)"

text \<open>\<^verbatim>\<open>handleStreamingChunk\<close> (lines 39-63), one equation per arm of the switch.\<close>

fun handleStreamingChunk :: "scope \<Rightarrow> nat \<Rightarrow> StreamingChunk \<Rightarrow> voice_chat \<Rightarrow> voice_chat" where
  "handleStreamingChunk sc now (text_chunk c) s = s\<lparr>currentResponse := currentResponse s @ c\<rparr>"
| "handleStreamingChunk sc now (audio_chunk b) s = s\<lparr>played := played s @ [b]\<rparr>"
| "handleStreamingChunk sc now (council_update_chunk u) s = s\<lparr>councilUpdate := Some u\<rparr>"
| "handleStreamingChunk sc now done_chunk s =
     (let s1 = (if sc_currentResponse sc \<noteq> []
                then (addMessage sc now assistant (sc_currentResponse sc) s)\<lparr>currentResponse := []\<rparr>
                else s)
      in s1\<lparr>councilUpdate := None, isProcessing := False\<rparr>)"
| "handleStreamingChunk sc now (error_chunk e) s =
     s\<lparr>console := console s @ [''Streaming error: '' @ e], isProcessing := False\<rparr>"
| "handleStreamingChunk sc now other_chunk s = s"

text \<open>
  The effect at lines 20-37 has the dependency list \<^verbatim>\<open>[]\<close>: React runs it once, after the
  first render, and never again. The callback it hands to \<^verbatim>\<open>wsManager.connect\<close> is the
  closure of that first render, and \<^verbatim>\<open>attemptReconnect\<close> passes the same callback on to
  every later \<^verbatim>\<open>connect\<close>. So every chunk the manager delivers runs
  \<^verbatim>\<open>handleStreamingChunk\<close> in the scope of the first render, whose constants are the
  initial values of the cells.
\<close>

definition first_render :: scope where
  "first_render = render initial_voice_chat"

definition onMessage :: "nat \<Rightarrow> StreamingChunk \<Rightarrow> voice_chat \<Rightarrow> voice_chat" where
  "onMessage now chunk s = handleStreamingChunk first_render now chunk s"

text \<open>Chunks are applied one by one in arrival order; each arrives at its own clock reading.\<close>

fun dispatch :: "(nat \<times> StreamingChunk) list \<Rightarrow> voice_chat \<Rightarrow> voice_chat" where
  "dispatch [] s = s"
| "dispatch ((now, chunk) # rest) s = dispatch rest (onMessage now chunk s)"

section \<open>The WebSocketManager\<close>

text \<open>
  The manager holds one reference \<^verbatim>\<open>ws\<close> to a browser \<^verbatim>\<open>WebSocket\<close> and a counter. The
  browser objects it creates are part of the state: every socket ever constructed, in
  construction order (a reference is the index), and the callbacks pending in
  \<^verbatim>\<open>setTimeout\<close>. The handlers that \<^verbatim>\<open>connect\<close> attaches to a socket close over the
  arguments of that call: whether an \<^verbatim>\<open>onError\<close> was passed, and who holds the promise.
\<close>

datatype ready_state = CONNECTING | OPEN | CLOSING | CLOSED

datatype caller = by_app | by_timer

record socket =
  readyState :: ready_state
  sock_onError :: bool
  sock_caller :: caller

record outbound =
  request_type :: string
  out_content :: string

record WebSocketManager =
  ws :: "nat option"
  url_ok :: bool
  reconnectAttempts :: nat
  sockets :: "socket list"
  timers :: "(nat \<times> bool) list"
  scheduled :: "nat list"
  sent :: "(nat \<times> outbound) list"
  ws_console :: "string list"

text \<open>
  \<open>url_ok\<close> says whether \<^verbatim>\<open>new WebSocket(this.url)\<close> constructs (it throws on a malformed
  url). \<open>timers\<close> are the pending timeouts, each with its delay in milliseconds and the
  \<^verbatim>\<open>onError\<close> its callback closes over; \<open>scheduled\<close> logs every delay ever passed to
  \<^verbatim>\<open>setTimeout\<close>, \<open>sent\<close> every payload passed to a socket's \<^verbatim>\<open>send\<close>, and \<open>ws_console\<close>
  the manager's \<^verbatim>\<open>console.error\<close> lines. The two private fields below are initialised in
  the class body and assigned nowhere.
\<close>

definition maxReconnectAttempts :: nat where
  "maxReconnectAttempts = 5"

definition reconnectDelay :: nat where
  "reconnectDelay = 1000"

definition new_manager :: "bool \<Rightarrow> WebSocketManager" where
  "new_manager ok =
     \<lparr>ws = None, url_ok = ok, reconnectAttempts = 0, sockets = [], timers = [],
      scheduled = [], sent = [], ws_console = []\<rparr>"

text \<open>What a handler calls back into its caller's code.\<close>

datatype callback =
  call_onMessage StreamingChunk
| call_onError string
| resolve
| reject string
| threw string

text \<open>
  \<^verbatim>\<open>connect\<close> (lines 14-47): the body of the promise. The constructor either throws, and
  the promise is rejected with \<^verbatim>\<open>this.ws\<close> untouched, or the new socket is stored in
  \<^verbatim>\<open>this.ws\<close> and gets the four handlers. There is no test of \<^verbatim>\<open>this.ws\<close> before.
\<close>

definition connect :: "caller \<Rightarrow> bool \<Rightarrow> WebSocketManager \<Rightarrow> WebSocketManager \<times> callback list" where
  "connect who onErr m =
     (if url_ok m
      then (m\<lparr>ws := Some (length (sockets m)),
              sockets := sockets m @
                [\<lparr>readyState = CONNECTING, sock_onError = onErr, sock_caller = who\<rparr>]\<rparr>, [])
      else (m, [reject ''SyntaxError'']))"

text \<open>\<^verbatim>\<open>attemptReconnect\<close> (lines 49-67), up to the call of \<^verbatim>\<open>setTimeout\<close>.\<close>

definition attemptReconnect :: "bool \<Rightarrow> WebSocketManager \<Rightarrow> WebSocketManager \<times> callback list" where
  "attemptReconnect onErr m =
     (if reconnectAttempts m \<ge> maxReconnectAttempts
      then (m, if onErr then [call_onError ''Max reconnection attempts reached''] else [])
      else
        (let m1 = m\<lparr>reconnectAttempts := reconnectAttempts m + 1\<rparr>;
             delay = reconnectDelay * 2 ^ (reconnectAttempts m1 - 1)
         in (m1\<lparr>timers := timers m1 @ [(delay, onErr)],
                scheduled := scheduled m1 @ [delay]\<rparr>, [])))"

text \<open>
  The callback handed to \<^verbatim>\<open>setTimeout\<close> (lines 60-66): \<^verbatim>\<open>connect\<close> again with the same
  callbacks; a rejection goes to \<^verbatim>\<open>onError\<close> when there is one, a resolution to nobody.
\<close>

definition catch_reject :: "bool \<Rightarrow> callback \<Rightarrow> callback list" where
  "catch_reject onErr cb =
     (case cb of reject e \<Rightarrow> (if onErr then [call_onError e] else []) | _ \<Rightarrow> [cb])"

definition timeout_callback :: "bool \<Rightarrow> WebSocketManager \<Rightarrow> WebSocketManager \<times> callback list" where
  "timeout_callback onErr m =
     (case connect by_timer onErr m of (m1, cbs) \<Rightarrow> (m1, concat (map (catch_reject onErr) cbs)))"

text \<open>
  The four handlers of a socket \<open>k\<close> (lines 19-42). \<^verbatim>\<open>resolve()\<close> at line 21 calls the
  continuation of the promise: the application's, or none for a promise made by a timer's
  \<^verbatim>\<open>connect\<close>. \<open>parse\<close> stands for
  \<^verbatim>\<open>JSON.parse(event.data) as StreamingChunk\<close>: \<open>None\<close> when the frame is not a chunk,
  so that the \<^verbatim>\<open>try\<close> block throws before any setter runs (\<^verbatim>\<open>JSON.parse\<close> rejects
  the text, or it yields \<^verbatim>\<open>null\<close>, whose \<^verbatim>\<open>type\<close> cannot be read).
\<close>

definition ws_onopen :: "socket \<Rightarrow> WebSocketManager \<Rightarrow> WebSocketManager \<times> callback list" where
  "ws_onopen k m =
     (m\<lparr>reconnectAttempts := 0\<rparr>, if sock_caller k = by_app then [resolve] else [])"

definition ws_onmessage ::
  "(string \<Rightarrow> StreamingChunk option) \<Rightarrow> string \<Rightarrow> WebSocketManager \<Rightarrow> WebSocketManager \<times> callback list"
where
  "ws_onmessage parse d m =
     (case parse d of
        Some chunk \<Rightarrow> (m, [call_onMessage chunk])
      | None \<Rightarrow> (m\<lparr>ws_console := ws_console m @ [''Failed to parse WebSocket message:'']\<rparr>, []))"

definition ws_onerror :: "socket \<Rightarrow> WebSocketManager \<Rightarrow> WebSocketManager \<times> callback list" where
  "ws_onerror k m = (m, if sock_onError k then [call_onError ''WebSocket error''] else [])"

definition ws_onclose :: "socket \<Rightarrow> WebSocketManager \<Rightarrow> WebSocketManager \<times> callback list" where
  "ws_onclose k m = attemptReconnect (sock_onError k) (m\<lparr>ws := None\<rparr>)"

text \<open>\<^verbatim>\<open>send\<close>, \<^verbatim>\<open>disconnect\<close> and \<^verbatim>\<open>isConnected\<close> (lines 69-86).\<close>

definition ready :: "WebSocketManager \<Rightarrow> nat \<Rightarrow> ready_state" where
  "ready m i = (if i < length (sockets m) then readyState (sockets m ! i) else CLOSED)"

definition send :: "outbound \<Rightarrow> WebSocketManager \<Rightarrow> string + WebSocketManager" where
  "send d m =
     (case ws m of
        Some i \<Rightarrow>
          if ready m i = OPEN then Inr (m\<lparr>sent := sent m @ [(i, d)]\<rparr>)
          else Inl ''WebSocket is not connected''
      | None \<Rightarrow> Inl ''WebSocket is not connected'')"

text \<open>\<^verbatim>\<open>WebSocket.close()\<close> starts the closing handshake of a socket that is not yet closing.\<close>

definition close_socket :: "socket \<Rightarrow> socket" where
  "close_socket k =
     (if readyState k = CONNECTING \<or> readyState k = OPEN then k\<lparr>readyState := CLOSING\<rparr> else k)"

definition set_socket :: "nat \<Rightarrow> (socket \<Rightarrow> socket) \<Rightarrow> WebSocketManager \<Rightarrow> WebSocketManager" where
  "set_socket i f m =
     (if i < length (sockets m) then m\<lparr>sockets := (sockets m)[i := f (sockets m ! i)]\<rparr> else m)"

definition disconnect :: "WebSocketManager \<Rightarrow> WebSocketManager" where
  "disconnect m =
     (case ws m of
        Some i \<Rightarrow> (set_socket i close_socket m)\<lparr>ws := None\<rparr>
      | None \<Rightarrow> m)"

definition ws_isConnected :: "WebSocketManager \<Rightarrow> bool" where
  "ws_isConnected m = (case ws m of Some i \<Rightarrow> ready m i = OPEN | None \<Rightarrow> False)"

subsection \<open>The manager in its environment\<close>

text \<open>
  What can happen to a manager: the application calls one of its three public methods,
  or the browser fires an event. The browser fires \<^verbatim>\<open>open\<close> on a connecting socket,
  \<^verbatim>\<open>message\<close> on an open one, \<^verbatim>\<open>error\<close> and \<^verbatim>\<open>close\<close> on one that is not closed yet
  (\<^verbatim>\<open>close\<close> once, also after \<^verbatim>\<open>close()\<close> was called on it), and a timeout for a pending
  timer, which is then gone. An event the browser cannot fire changes nothing.
\<close>

datatype stimulus =
  call_connect bool
| call_send outbound
| call_disconnect
| ev_open nat
| ev_message nat string
| ev_error nat
| ev_close nat
| ev_timeout nat

definition remove_nth :: "nat \<Rightarrow> 'a list \<Rightarrow> 'a list" where
  "remove_nth j xs = take j xs @ drop (Suc j) xs"

fun step ::
  "(string \<Rightarrow> StreamingChunk option) \<Rightarrow> stimulus \<Rightarrow> WebSocketManager \<Rightarrow> WebSocketManager \<times> callback list"
where
  "step parse (call_connect onErr) m = connect by_app onErr m"
| "step parse (call_send d) m = (case send d m of Inl e \<Rightarrow> (m, [threw e]) | Inr m1 \<Rightarrow> (m1, []))"
| "step parse call_disconnect m = (disconnect m, [])"
| "step parse (ev_open i) m =
     (if ready m i = CONNECTING
      then ws_onopen (sockets m ! i) (set_socket i (\<lambda>k. k\<lparr>readyState := OPEN\<rparr>) m)
      else (m, []))"
| "step parse (ev_message i d) m =
     (if ready m i = OPEN then ws_onmessage parse d m else (m, []))"
| "step parse (ev_error i) m =
     (if ready m i \<noteq> CLOSED then ws_onerror (sockets m ! i) m else (m, []))"
| "step parse (ev_close i) m =
     (if ready m i \<noteq> CLOSED
      then ws_onclose (sockets m ! i) (set_socket i (\<lambda>k. k\<lparr>readyState := CLOSED\<rparr>) m)
      else (m, []))"
| "step parse (ev_timeout j) m =
     (if j < length (timers m)
      then timeout_callback (snd (timers m ! j)) (m\<lparr>timers := remove_nth j (timers m)\<rparr>)
      else (m, []))"

fun run ::
  "(string \<Rightarrow> StreamingChunk option) \<Rightarrow> stimulus list \<Rightarrow> WebSocketManager \<Rightarrow> WebSocketManager \<times> callback list"
where
  "run parse [] m = (m, [])"
| "run parse (e # es) m =
     (case step parse e m of (m1, cbs) \<Rightarrow>
        (case run parse es m1 of (m2, cbs') \<Rightarrow> (m2, cbs @ cbs')))"

section \<open>The component on the manager\<close>

text \<open>
  The callbacks the mount effect registers (lines 22-32): the message callback, the error
  callback, and the continuation of the promise of its own \<^verbatim>\<open>connect\<close>. That promise has
  no rejection handler, and an exception of \<^verbatim>\<open>send\<close> goes back to whoever called it.
\<close>

fun apply_callback :: "nat \<Rightarrow> voice_chat \<Rightarrow> callback \<Rightarrow> voice_chat" where
  "apply_callback now s (call_onMessage chunk) = onMessage now chunk s"
| "apply_callback now s (call_onError e) =
     s\<lparr>console := console s @ [''WebSocket error: '' @ e], isConnected := False\<rparr>"
| "apply_callback now s resolve = s\<lparr>isConnected := True\<rparr>"
| "apply_callback now s (reject e) = s"
| "apply_callback now s (threw e) = s"

text \<open>A run of the manager with the component's callbacks; every input has its clock reading.\<close>

fun sys_run ::
  "(string \<Rightarrow> StreamingChunk option) \<Rightarrow> (nat \<times> stimulus) list \<Rightarrow>
   WebSocketManager \<times> voice_chat \<Rightarrow> WebSocketManager \<times> voice_chat"
where
  "sys_run parse [] mv = mv"
| "sys_run parse ((now, e) # es) mv =
     (case step parse e (fst mv) of (m1, cbs) \<Rightarrow>
        sys_run parse es (m1, foldl (apply_callback now) (snd mv) cbs))"

text \<open>A frame that does not parse: the \<^verbatim>\<open>try\<close> block of \<^verbatim>\<open>onmessage\<close> ends in its \<^verbatim>\<open>catch\<close>.\<close>

fun malformed :: "(string \<Rightarrow> StreamingChunk option) \<Rightarrow> stimulus \<Rightarrow> bool" where
  "malformed parse (ev_message i d) = (parse d = None)"
| "malformed parse e = False"

definition but_console :: "WebSocketManager \<Rightarrow> WebSocketManager" where
  "but_console m = m\<lparr>ws_console := []\<rparr>"

subsection \<open>Recording\<close>

text \<open>
  \<^verbatim>\<open>handleRecordingStart\<close> and \<^verbatim>\<open>handleRecordingStop\<close> (lines 76-109). What the awaited
  calls answer is the environment's: \<open>started\<close> and \<open>stopped\<close> are the outcomes of
  \<^verbatim>\<open>audioService.startRecording()\<close> and \<^verbatim>\<open>stopRecording()\<close> (\<open>Inl\<close> a rejection), and
  \<open>transcribeAudio\<close> is the outcome of the api client's method, a \<^verbatim>\<open>fetch\<close> of the
  transcription endpoint: \<open>Inl\<close> when its promise rejects (the request fails, or the
  response is not \<^verbatim>\<open>ok\<close>), \<open>Inr\<close> the \<^verbatim>\<open>text\<close> of its answer.
\<close>

definition handleRecordingStart :: "string + unit \<Rightarrow> voice_chat \<Rightarrow> voice_chat" where
  "handleRecordingStart started s =
     (case started of
        Inr _ \<Rightarrow> s\<lparr>isRecording := True\<rparr>
      | Inl e \<Rightarrow> s\<lparr>console := console s @ [''Failed to start recording: '' @ e]\<rparr>)"

definition failed_recording :: "string \<Rightarrow> voice_chat \<Rightarrow> voice_chat" where
  "failed_recording e s =
     s\<lparr>console := console s @ [''Failed to process recording: '' @ e], isProcessing := False\<rparr>"

definition handleRecordingStop ::
  "scope \<Rightarrow> nat \<Rightarrow> string + ArrayBuffer \<Rightarrow> (ArrayBuffer \<Rightarrow> string + string) \<Rightarrow>
   voice_chat \<times> WebSocketManager \<Rightarrow> voice_chat \<times> WebSocketManager"
where
  "handleRecordingStop sc now stopped transcribeAudio sm =
     (case stopped of
        Inl e \<Rightarrow> (failed_recording e (fst sm), snd sm)
      | Inr audioBlob \<Rightarrow>
          (let s1 = (fst sm)\<lparr>isRecording := False, isProcessing := True\<rparr> in
           case transcribeAudio audioBlob of
             Inl e \<Rightarrow> (failed_recording e s1, snd sm)
           | Inr transcription \<Rightarrow>
               (let s2 = addMessage sc now user transcription s1 in
                case send \<lparr>request_type = ''audio'', out_content = transcription\<rparr> (snd sm) of
                  Inl e \<Rightarrow> (failed_recording e s2, snd sm)
                | Inr m1 \<Rightarrow> (s2, m1))))"

text \<open>
  The record button (\<^verbatim>\<open>AudioRecorder\<close>, lines 19-25): \<^verbatim>\<open>disabled\<close> while processing, when a
  click calls nothing; otherwise \<^verbatim>\<open>onStop\<close> while recording and \<^verbatim>\<open>onStart\<close> when not.
\<close>

datatype recorder_action = no_action | do_onStart | do_onStop

definition AudioRecorder :: "bool \<Rightarrow> bool \<Rightarrow> recorder_action" where
  "AudioRecorder is_recording is_processing =
     (if is_processing then no_action else if is_recording then do_onStop else do_onStart)"

text \<open>
  The component renders the button with its two flags and its two handlers (lines
  129-134); the handlers are those of the render on screen.
\<close>

definition record_click ::
  "nat \<Rightarrow> string + unit \<Rightarrow> string + ArrayBuffer \<Rightarrow> (ArrayBuffer \<Rightarrow> string + string) \<Rightarrow>
   voice_chat \<times> WebSocketManager \<Rightarrow> voice_chat \<times> WebSocketManager"
where
  "record_click now started stopped transcribeAudio sm =
     (case AudioRecorder (isRecording (fst sm)) (isProcessing (fst sm)) of
        no_action \<Rightarrow> sm
      | do_onStart \<Rightarrow> (handleRecordingStart started (fst sm), snd sm)
      | do_onStop \<Rightarrow> handleRecordingStop (render (fst sm)) now stopped transcribeAudio sm)"

section \<open>The TextInput component\<close>

record text_input =
  ti_messages :: "Message list"
  input :: string
  ti_isProcessing :: bool

text \<open>
  \<^verbatim>\<open>input.trim()\<close> is the empty string, which is falsy, exactly when every code unit of
  the input is white space or a line terminator. Strings here are lists of code units
  below 256, where those are the units 9 to 13, 32 and 160.
\<close>

definition white_space :: "char \<Rightarrow> bool" where
  "white_space c = (of_char c \<in> {9, 10, 11, 12, 13, 32, 160 :: nat})"

definition blank :: "string \<Rightarrow> bool" where
  "blank s = list_all white_space s"

datatype outcome = returned | thrown string

text \<open>
  \<^verbatim>\<open>handleSend\<close> (lines 12-32). The three setters have run when \<^verbatim>\<open>wsManager.send\<close> throws,
  so their updates stand and the exception leaves the handler.
\<close>

definition handleSend ::
  "nat \<Rightarrow> text_input \<times> WebSocketManager \<Rightarrow> (text_input \<times> WebSocketManager) \<times> outcome"
where
  "handleSend now tm =
     (let t = fst tm in
      if blank (input t) \<or> ti_isProcessing t then (tm, returned)
      else
        (let userMessage = \<lparr>msg_id = toString now, msg_role = user, content = input t,
                             timestamp = now, metadata = None\<rparr>;
             t1 = t\<lparr>ti_messages := ti_messages t @ [userMessage], input := [],
                    ti_isProcessing := True\<rparr>
         in case send \<lparr>request_type = ''text'', out_content = input t\<rparr> (snd tm) of
              Inl e \<Rightarrow> ((t1, snd tm), thrown e)
            | Inr m1 \<Rightarrow> ((t1, m1), returned)))"

section \<open>Properties of the chunk dispatcher\<close>

lemma dispatch_append: "dispatch (xs @ ys) s = dispatch ys (dispatch xs s)"
  by (induction xs arbitrary: s) auto

text \<open>
  Text chunks only ever extend the accumulator, in arrival order and without loss; no
  other cell changes.
\<close>

lemma dispatch_text:
  "dispatch (map (\<lambda>(now, c). (now, text_chunk c)) tcs) s
     = s\<lparr>currentResponse := currentResponse s @ concat (map snd tcs)\<rparr>"
  by (induction tcs arbitrary: s) (auto simp: onMessage_def)

text \<open>
  The \<^verbatim>\<open>done\<close> arm in the scope of the first render: its \<^verbatim>\<open>currentResponse\<close> is the
  empty string, so the guard at line 51 fails whatever the cell holds.
\<close>

lemma onMessage_done:
  "onMessage now done_chunk s = s\<lparr>councilUpdate := None, isProcessing := False\<rparr>"
  by (simp add: onMessage_def first_render_def render_def initial_voice_chat_def)

text \<open>
  The same arm in the scope of a render that shows the state \<open>s\<close>: this is what lines
  50-57 set out to do. A non-empty accumulator becomes the content of a new assistant
  message and is cleared.
\<close>

lemma done_in_scope_of_state:
  assumes "currentResponse s \<noteq> []"
  shows "handleStreamingChunk (render s) now done_chunk s
           = s\<lparr>messages := messages s @
                  [\<lparr>msg_id = toString now, msg_role = assistant, content = currentResponse s,
                    timestamp = now,
                    metadata = (case councilUpdate s of None \<Rightarrow> None
                                | Some u \<Rightarrow> Some \<lparr>council = Some u, audioUrl = None\<rparr>)\<rparr>],
                currentResponse := [], councilUpdate := None, isProcessing := False\<rparr>"
  using assms by (simp add: render_def addMessage_def)

text \<open>
  What the registered callback does with any run of text chunks followed by \<^verbatim>\<open>done\<close>:
  the message list is as before, and the accumulator keeps the text.
\<close>

lemma dispatch_text_done:
  "dispatch (map (\<lambda>(now, c). (now, text_chunk c)) tcs @ [(now, done_chunk)]) s
     = s\<lparr>currentResponse := currentResponse s @ concat (map snd tcs),
          councilUpdate := None, isProcessing := False\<rparr>"
  by (simp add: dispatch_append dispatch_text onMessage_done)

text \<open>
  C1. After the text chunks \<open>Hi\<close> and \<open> there\<close> and a \<^verbatim>\<open>done\<close> chunk, the finalized
  assistant message should have the content \<open>Hi there\<close>, the accumulator should be
  cleared and the processing indicator too. The callback that the component registers
  clears the indicator, but it appends no message and leaves \<open>Hi there\<close> in the
  accumulator: its \<^verbatim>\<open>done\<close> arm tests the \<^verbatim>\<open>currentResponse\<close> of the first render.
\<close>

theorem text_then_done_appends_nothing:
  "dispatch [(1, text_chunk ''Hi''), (2, text_chunk '' there''), (3, done_chunk)]
     (initial_voice_chat\<lparr>isProcessing := True\<rparr>)
   = initial_voice_chat\<lparr>currentResponse := ''Hi there''\<rparr>"
  by (simp add: onMessage_def first_render_def render_def initial_voice_chat_def)

text \<open>
  C5. An \<^verbatim>\<open>error\<close> chunk should abort the exchange: error surfaced, accumulator cleared,
  no assistant message, indicator cleared. After the text chunk \<open>partial\<close> and an
  \<^verbatim>\<open>error\<close> chunk the error is on the console, no message was appended and the indicator
  is cleared, but the accumulator still holds \<open>partial\<close>: the \<^verbatim>\<open>error\<close> arm has no
  \<^verbatim>\<open>setCurrentResponse('')\<close>, which the \<^verbatim>\<open>done\<close> arm has.
\<close>

theorem error_keeps_accumulator:
  "dispatch [(1, text_chunk ''partial''), (2, error_chunk ''boom'')]
     (initial_voice_chat\<lparr>isProcessing := True\<rparr>)
   = initial_voice_chat\<lparr>currentResponse := ''partial'', console := [''Streaming error: boom'']\<rparr>"
  by (simp add: onMessage_def first_render_def render_def initial_voice_chat_def)

text \<open>
  C6. A \<^verbatim>\<open>council_update\<close> chunk sets the council snapshot to exactly the chunk's payload,
  whatever the snapshot was before (none or any other) and whatever scope the handler
  runs in; nothing of the previous snapshot survives and no other cell changes.
\<close>

theorem council_update_replaces_snapshot:
  "handleStreamingChunk sc now (council_update_chunk u) (s\<lparr>councilUpdate := prior\<rparr>)
     = s\<lparr>councilUpdate := Some u\<rparr>
   \<and> councilUpdate (onMessage now (council_update_chunk u) (s\<lparr>councilUpdate := prior\<rparr>)) = Some u"
  by (simp add: onMessage_def)

text \<open>
  C10. When a \<^verbatim>\<open>done\<close> chunk arrives while the accumulator is empty, no message is
  appended, the council snapshot is cleared and the processing indicator is cleared.
  This holds for the handler in the scope of the first render (the registered callback)
  and in the scope of a render of the state at hand.
\<close>

theorem done_with_empty_accumulator:
  assumes "currentResponse s = []" and "sc = first_render \<or> sc = render s"
  shows "messages (handleStreamingChunk sc now done_chunk s) = messages s
       \<and> councilUpdate (handleStreamingChunk sc now done_chunk s) = None
       \<and> \<not> isProcessing (handleStreamingChunk sc now done_chunk s)"
  using assms by (auto simp: first_render_def render_def initial_voice_chat_def)

theorem done_with_empty_accumulator_witness:
  "currentResponse (initial_voice_chat\<lparr>isProcessing := True\<rparr>) = []
   \<and> messages (handleStreamingChunk first_render 7 done_chunk
        (initial_voice_chat\<lparr>isProcessing := True\<rparr>)) = []
   \<and> \<not> isProcessing (handleStreamingChunk first_render 7 done_chunk
        (initial_voice_chat\<lparr>isProcessing := True\<rparr>))
   \<and> councilUpdate (handleStreamingChunk (render (initial_voice_chat\<lparr>isProcessing := True\<rparr>)) 7
        done_chunk (initial_voice_chat\<lparr>isProcessing := True\<rparr>)) = None"
  using done_with_empty_accumulator[of "initial_voice_chat\<lparr>isProcessing := True\<rparr>" first_render 7]
    done_with_empty_accumulator[of "initial_voice_chat\<lparr>isProcessing := True\<rparr>"
      "render (initial_voice_chat\<lparr>isProcessing := True\<rparr>)" 7]
  by (simp add: initial_voice_chat_def)

section \<open>Properties of recording and of the busy guard\<close>

text \<open>
  C7. When recording stops and the transcription call fails, the exchange is over:
  nothing is sent on the channel (the manager is as before), no message is appended, and
  the component is neither recording nor processing. The one trace is a console line.
\<close>

theorem transcription_failure_aborts:
  assumes "transcribeAudio audioBlob = Inl e"
  shows "handleRecordingStop sc now (Inr audioBlob) transcribeAudio (s, m)
           = (s\<lparr>isRecording := False, isProcessing := False,
                 console := console s @ [''Failed to process recording: '' @ e]\<rparr>, m)
       \<and> messages (fst (handleRecordingStop sc now (Inr audioBlob) transcribeAudio (s, m)))
           = messages s
       \<and> sent (snd (handleRecordingStop sc now (Inr audioBlob) transcribeAudio (s, m))) = sent m"
  using assms by (simp add: handleRecordingStop_def failed_recording_def)

theorem transcription_failure_aborts_witness:
  "handleRecordingStop first_render 9 (Inr [1, 2]) (\<lambda>b. Inl ''503'')
     (initial_voice_chat\<lparr>isRecording := True\<rparr>, new_manager True)
   = (initial_voice_chat\<lparr>console := [''Failed to process recording: 503'']\<rparr>, new_manager True)"
  using transcription_failure_aborts[of "\<lambda>b. Inl ''503''" "[1, 2]" "''503''" first_render 9
      "initial_voice_chat\<lparr>isRecording := True\<rparr>" "new_manager True"]
  by (simp add: initial_voice_chat_def)

text \<open>
  Against C8 as stated: with the processing indicator set, \<^verbatim>\<open>handleSend\<close> does leave every
  state as it is, but it returns normally; no error is raised, a \<^verbatim>\<open>BusyError\<close> or other.
\<close>

theorem busy_send_counterexample:
  "handleSend 5 (\<lparr>ti_messages = [], input = ''hi'', ti_isProcessing = True\<rparr>, new_manager True)
     = ((\<lparr>ti_messages = [], input = ''hi'', ti_isProcessing = True\<rparr>, new_manager True), returned)
   \<and> returned \<noteq> thrown ''BusyError''"
  by (simp add: handleSend_def)

text \<open>
  C8, amended. While the processing indicator is set, an attempt to start a new exchange
  is ignored without any error: \<^verbatim>\<open>handleSend\<close> returns at once, and the record button is
  disabled, so that a click runs no handler; nothing is sent or appended and no state is
  altered. While the component is recording and not processing, a click on the record
  button stops the recording; it does not start another one.
\<close>

theorem busy_start_ignored:
  "(ti_isProcessing t \<longrightarrow> handleSend now (t, m) = ((t, m), returned))
   \<and> (isProcessing s \<longrightarrow> record_click now started stopped transcribeAudio (s, m) = (s, m))
   \<and> (isRecording s \<and> \<not> isProcessing s \<longrightarrow>
        record_click now started stopped transcribeAudio (s, m)
          = handleRecordingStop (render s) now stopped transcribeAudio (s, m))"
  by (simp add: handleSend_def record_click_def AudioRecorder_def)

theorem busy_start_ignored_witness:
  "handleSend 5 (\<lparr>ti_messages = [], input = ''hi'', ti_isProcessing = True\<rparr>, new_manager True)
     = ((\<lparr>ti_messages = [], input = ''hi'', ti_isProcessing = True\<rparr>, new_manager True), returned)
   \<and> record_click 5 (Inr ()) (Inr []) (\<lambda>b. Inr ''x'')
        (initial_voice_chat\<lparr>isProcessing := True\<rparr>, new_manager True)
     = (initial_voice_chat\<lparr>isProcessing := True\<rparr>, new_manager True)
   \<and> isRecording (fst (record_click 5 (Inr ()) (Inr []) (\<lambda>b. Inl ''x'')
        (initial_voice_chat\<lparr>isRecording := True\<rparr>, new_manager True))) = False"
  using busy_start_ignored[of "\<lparr>ti_messages = [], input = ''hi'', ti_isProcessing = True\<rparr>" 5
      "new_manager True" "initial_voice_chat\<lparr>isProcessing := True\<rparr>" "Inr ()" "Inr []" "\<lambda>b. Inr ''x''"]
    busy_start_ignored[of "\<lparr>ti_messages = [], input = ''hi'', ti_isProcessing = True\<rparr>" 5
      "new_manager True" "initial_voice_chat\<lparr>isRecording := True\<rparr>" "Inr ()" "Inr []" "\<lambda>b. Inl ''x''"]
  by (simp add: initial_voice_chat_def handleRecordingStop_def failed_recording_def)

section \<open>Properties of the connection manager\<close>

lemmas manager_defs =
  new_manager_def connect_def ready_def set_socket_def close_socket_def disconnect_def send_def
  ws_onopen_def ws_onmessage_def ws_onerror_def ws_onclose_def attemptReconnect_def
  timeout_callback_def catch_reject_def remove_nth_def maxReconnectAttempts_def reconnectDelay_def
  Let_def

lemma run_Cons_fst: "fst (run parse (e # es) m) = fst (run parse es (fst (step parse e m)))"
  by (simp add: case_prod_unfold)

subsection \<open>The attempt counter and the delays\<close>

text \<open>No input takes the counter beyond the maximum.\<close>

lemma step_attempts:
  "reconnectAttempts m \<le> maxReconnectAttempts \<Longrightarrow>
   reconnectAttempts (fst (step parse e m)) \<le> maxReconnectAttempts"
  by (cases e)
     (auto simp: connect_def send_def disconnect_def set_socket_def ws_onopen_def
        ws_onmessage_def ws_onerror_def ws_onclose_def attemptReconnect_def
        timeout_callback_def Let_def
        split: option.splits sum.splits prod.splits if_splits)

lemma run_attempts:
  "reconnectAttempts m \<le> maxReconnectAttempts \<Longrightarrow>
   reconnectAttempts (fst (run parse es m)) \<le> maxReconnectAttempts"
proof (induction es arbitrary: m)
  case Nil
  then show ?case by simp
next
  case (Cons e es)
  from step_attempts[OF Cons.prems]
  have "reconnectAttempts (fst (step parse e m)) \<le> maxReconnectAttempts" .
  from Cons.IH[OF this] show ?case by (simp only: run_Cons_fst)
qed

text \<open>
  As long as no socket opens, the counter only grows, and the delays handed to
  \<^verbatim>\<open>setTimeout\<close> are those of the attempts counted in between, in order.
\<close>

lemma step_scheduled:
  assumes "\<forall>i. e \<noteq> ev_open i"
  shows "reconnectAttempts m \<le> reconnectAttempts (fst (step parse e m))
       \<and> scheduled (fst (step parse e m))
           = scheduled m @ map (\<lambda>k. reconnectDelay * 2 ^ (k - 1))
               [reconnectAttempts m + 1 ..< reconnectAttempts (fst (step parse e m)) + 1]"
  using assms
  by (cases e)
     (auto simp: connect_def send_def disconnect_def set_socket_def
        ws_onmessage_def ws_onerror_def ws_onclose_def attemptReconnect_def
        timeout_callback_def Let_def
        split: option.splits sum.splits prod.splits if_splits)

lemma upt_glue: "i \<le> j \<Longrightarrow> j \<le> k \<Longrightarrow> [i ..< j] @ [j ..< k] = [i ..< (k::nat)]"
  by (metis le_Suc_ex upt_add_eq_append)

lemma run_scheduled:
  assumes "\<forall>i. ev_open i \<notin> set es"
  shows "reconnectAttempts m \<le> reconnectAttempts (fst (run parse es m))
       \<and> scheduled (fst (run parse es m))
           = scheduled m @ map (\<lambda>k. reconnectDelay * 2 ^ (k - 1))
               [reconnectAttempts m + 1 ..< reconnectAttempts (fst (run parse es m)) + 1]"
  using assms
proof (induction es arbitrary: m)
  case Nil
  then show ?case by simp
next
  case (Cons e es)
  let ?m1 = "fst (step parse e m)"
  let ?m2 = "fst (run parse es ?m1)"
  let ?d = "\<lambda>k. reconnectDelay * 2 ^ (k - 1)"
  from Cons.prems have e: "\<forall>i. e \<noteq> ev_open i" and es: "\<forall>i. ev_open i \<notin> set es"
    by auto
  from step_scheduled[OF e, of m parse]
  have a1: "reconnectAttempts m \<le> reconnectAttempts ?m1"
    and s1: "scheduled ?m1
               = scheduled m @ map ?d [reconnectAttempts m + 1 ..< reconnectAttempts ?m1 + 1]"
    by simp_all
  from Cons.IH[OF es, of ?m1]
  have a2: "reconnectAttempts ?m1 \<le> reconnectAttempts ?m2"
    and s2: "scheduled ?m2
               = scheduled ?m1 @ map ?d [reconnectAttempts ?m1 + 1 ..< reconnectAttempts ?m2 + 1]"
    by simp_all
  have "[reconnectAttempts m + 1 ..< reconnectAttempts ?m1 + 1]
          @ [reconnectAttempts ?m1 + 1 ..< reconnectAttempts ?m2 + 1]
        = [reconnectAttempts m + 1 ..< reconnectAttempts ?m2 + 1]"
    using a1 a2 by (intro upt_glue) simp_all
  then have "scheduled ?m2
               = scheduled m @ map ?d [reconnectAttempts m + 1 ..< reconnectAttempts ?m2 + 1]"
    using s1 s2 by (simp only: append_assoc map_append [symmetric])
  with a1 a2 show ?case by (simp only: run_Cons_fst) simp
qed

lemma run_append_fst: "fst (run parse (xs @ ys) m) = fst (run parse ys (fst (run parse xs m)))"
  by (induction xs arbitrary: m) (simp_all add: case_prod_unfold)

text \<open>A socket that opens takes the counter back to 0 and schedules nothing.\<close>

lemma step_open_resets:
  assumes "ready m i = CONNECTING"
  shows "reconnectAttempts (fst (step parse (ev_open i) m)) = 0
       \<and> scheduled (fst (step parse (ev_open i) m)) = scheduled m
       \<and> timers (fst (step parse (ev_open i) m)) = timers m
       \<and> ready (fst (step parse (ev_open i) m)) i = OPEN"
  using assms by (auto simp: ws_onopen_def set_socket_def ready_def split: if_splits)

text \<open>
  So the delays of an episode that follows a successful open are numbered from attempt 1.
\<close>

lemma episode_after_open:
  assumes "ready m i = CONNECTING" and "\<forall>j. ev_open j \<notin> set es"
  shows "scheduled (fst (run parse (ev_open i # es) m))
           = scheduled m @ map (\<lambda>k. reconnectDelay * 2 ^ (k - 1))
               [1 ..< reconnectAttempts (fst (run parse (ev_open i # es) m)) + 1]"
proof -
  let ?m1 = "fst (step parse (ev_open i) m)"
  from step_open_resets[OF assms(1), of parse]
  have r: "reconnectAttempts ?m1 = 0" and s: "scheduled ?m1 = scheduled m" by simp_all
  from run_scheduled[OF assms(2), of ?m1 parse] r s
  show ?thesis by (simp only: run_Cons_fst) simp
qed

text \<open>
  C3. From a state whose counter is within the maximum (a new manager's is 0), whatever
  happens: the attempt counter never exceeds 5; while no socket opens the delays
  scheduled are exactly \<open>1000 * 2 ^ (k - 1)\<close> for the attempts \<open>k\<close> counted meanwhile, in
  order; attempt \<open>k\<close> is scheduled \<open>1000 * 2 ^ (k - 1)\<close> ms ahead; with the budget used up
  \<^verbatim>\<open>attemptReconnect\<close> schedules nothing, changes nothing and calls the error callback
  it was given with the failure. A socket that opens resets the counter to 0, so every
  failure episode, the inputs \<open>es\<close> between one successful open and the next, after any
  history \<open>pre\<close>, numbers its attempts from 1: its delays are \<open>1000 * 2 ^ (k - 1)\<close> for
  \<open>k = 1, 2, ...\<close> up to the attempts made, which are at most 5.
\<close>

theorem reconnect_backoff_bounded:
  assumes "reconnectAttempts m \<le> maxReconnectAttempts"
  shows "reconnectAttempts (fst (run parse es m)) \<le> 5
       \<and> ((\<forall>i. ev_open i \<notin> set es) \<longrightarrow>
            scheduled (fst (run parse es m))
              = scheduled m @ map (\<lambda>k. 1000 * 2 ^ (k - 1))
                  [reconnectAttempts m + 1 ..< reconnectAttempts (fst (run parse es m)) + 1])
       \<and> (reconnectAttempts m < 5 \<longrightarrow>
            attemptReconnect onErr m
              = (m\<lparr>reconnectAttempts := reconnectAttempts m + 1,
                    timers := timers m @ [(1000 * 2 ^ reconnectAttempts m, onErr)],
                    scheduled := scheduled m @ [1000 * 2 ^ reconnectAttempts m]\<rparr>, []))
       \<and> (reconnectAttempts m = 5 \<longrightarrow>
            attemptReconnect onErr m
              = (m, if onErr then [call_onError ''Max reconnection attempts reached''] else []))
       \<and> (ready m i = CONNECTING \<longrightarrow>
            reconnectAttempts (fst (step parse (ev_open i) m)) = 0)
       \<and> (ready (fst (run parse pre m)) i = CONNECTING \<and> (\<forall>j. ev_open j \<notin> set es) \<longrightarrow>
            reconnectAttempts (fst (run parse (pre @ ev_open i # es) m)) \<le> 5
            \<and> scheduled (fst (run parse (pre @ ev_open i # es) m))
              = scheduled (fst (run parse pre m)) @ map (\<lambda>k. 1000 * 2 ^ (k - 1))
                  [1 ..< reconnectAttempts (fst (run parse (pre @ ev_open i # es) m)) + 1])"
proof -
  have "reconnectAttempts (fst (run parse es m)) \<le> 5"
    using run_attempts[OF assms] by (simp add: maxReconnectAttempts_def)
  moreover have "(\<forall>i. ev_open i \<notin> set es) \<longrightarrow>
            scheduled (fst (run parse es m))
              = scheduled m @ map (\<lambda>k. 1000 * 2 ^ (k - 1))
                  [reconnectAttempts m + 1 ..< reconnectAttempts (fst (run parse es m)) + 1]"
    using run_scheduled[of es m parse] by (simp add: reconnectDelay_def)
  moreover have "reconnectAttempts m < 5 \<longrightarrow>
            attemptReconnect onErr m
              = (m\<lparr>reconnectAttempts := reconnectAttempts m + 1,
                    timers := timers m @ [(1000 * 2 ^ reconnectAttempts m, onErr)],
                    scheduled := scheduled m @ [1000 * 2 ^ reconnectAttempts m]\<rparr>, [])"
    by (simp add: attemptReconnect_def maxReconnectAttempts_def reconnectDelay_def Let_def)
  moreover have "reconnectAttempts m = 5 \<longrightarrow>
            attemptReconnect onErr m
              = (m, if onErr then [call_onError ''Max reconnection attempts reached''] else [])"
    by (simp add: attemptReconnect_def maxReconnectAttempts_def)
  moreover have "ready m i = CONNECTING \<longrightarrow>
            reconnectAttempts (fst (step parse (ev_open i) m)) = 0"
    using step_open_resets[of m i parse] by blast
  moreover have "ready (fst (run parse pre m)) i = CONNECTING \<and> (\<forall>j. ev_open j \<notin> set es) \<longrightarrow>
            reconnectAttempts (fst (run parse (pre @ ev_open i # es) m)) \<le> 5
            \<and> scheduled (fst (run parse (pre @ ev_open i # es) m))
              = scheduled (fst (run parse pre m)) @ map (\<lambda>k. 1000 * 2 ^ (k - 1))
                  [1 ..< reconnectAttempts (fst (run parse (pre @ ev_open i # es) m)) + 1]"
  proof (intro impI conjI)
    show "reconnectAttempts (fst (run parse (pre @ ev_open i # es) m)) \<le> 5"
      using run_attempts[OF assms, of parse "pre @ ev_open i # es"]
      by (simp add: maxReconnectAttempts_def)
  next
    assume h: "ready (fst (run parse pre m)) i = CONNECTING \<and> (\<forall>j. ev_open j \<notin> set es)"
    then have c: "ready (fst (run parse pre m)) i = CONNECTING"
      and n: "\<forall>j. ev_open j \<notin> set es" by simp_all
    from episode_after_open[OF c n, of parse]
    show "scheduled (fst (run parse (pre @ ev_open i # es) m))
              = scheduled (fst (run parse pre m)) @ map (\<lambda>k. 1000 * 2 ^ (k - 1))
                  [1 ..< reconnectAttempts (fst (run parse (pre @ ev_open i # es) m)) + 1]"
      by (simp only: run_append_fst) (simp add: reconnectDelay_def)
  qed
  ultimately show ?thesis by blast
qed

text \<open>
  An episode in which the first channel and each of the five retries fail: five delays,
  doubling from 1000, then the failure report. And an episode after a reopen: two
  failures, the third channel opens, and the delays start again at 1000.
\<close>

theorem reconnect_backoff_bounded_witness:
  "reconnectAttempts (new_manager True) \<le> maxReconnectAttempts
   \<and> scheduled (fst (run Map.empty
        [call_connect True, ev_close 0,
         ev_timeout 0, ev_close 1, ev_timeout 0, ev_close 2, ev_timeout 0, ev_close 3,
         ev_timeout 0, ev_close 4, ev_timeout 0, ev_close 5] (new_manager True)))
       = [1000, 2000, 4000, 8000, 16000]
   \<and> reconnectAttempts (fst (run Map.empty
        [call_connect True, ev_close 0,
         ev_timeout 0, ev_close 1, ev_timeout 0, ev_close 2, ev_timeout 0, ev_close 3,
         ev_timeout 0, ev_close 4, ev_timeout 0, ev_close 5] (new_manager True))) = 5
   \<and> snd (run Map.empty
        [call_connect True, ev_close 0,
         ev_timeout 0, ev_close 1, ev_timeout 0, ev_close 2, ev_timeout 0, ev_close 3,
         ev_timeout 0, ev_close 4, ev_timeout 0, ev_close 5] (new_manager True))
       = [call_onError ''Max reconnection attempts reached'']
   \<and> snd (attemptReconnect True ((new_manager True)\<lparr>reconnectAttempts := 5\<rparr>))
       = [call_onError ''Max reconnection attempts reached'']
   \<and> timers (fst (attemptReconnect True ((new_manager True)\<lparr>reconnectAttempts := 2\<rparr>)))
       = [(4000, True)]
   \<and> ready (fst (run Map.empty
        [call_connect True, ev_close 0, ev_timeout 0, ev_close 1, ev_timeout 0] (new_manager True))) 2
       = CONNECTING
   \<and> reconnectAttempts (fst (run Map.empty
        [call_connect True, ev_close 0, ev_timeout 0, ev_close 1, ev_timeout 0] (new_manager True))) = 2
   \<and> reconnectAttempts (fst (step Map.empty (ev_open 2) (fst (run Map.empty
        [call_connect True, ev_close 0, ev_timeout 0, ev_close 1, ev_timeout 0] (new_manager True))))) = 0
   \<and> scheduled (fst (run Map.empty
        ([call_connect True, ev_close 0, ev_timeout 0, ev_close 1, ev_timeout 0]
           @ ev_open 2 # [ev_close 2, ev_timeout 0, ev_close 3]) (new_manager True)))
       = [1000, 2000] @ [1000, 2000]"
  using reconnect_backoff_bounded[of "new_manager True" Map.empty
      "[call_connect True, ev_close 0,
         ev_timeout 0, ev_close 1, ev_timeout 0, ev_close 2, ev_timeout 0, ev_close 3,
         ev_timeout 0, ev_close 4, ev_timeout 0, ev_close 5]" True 2
      "[call_connect True, ev_close 0, ev_timeout 0, ev_close 1, ev_timeout 0]"]
    reconnect_backoff_bounded[of "(new_manager True)\<lparr>reconnectAttempts := 5\<rparr>" Map.empty "[]" True 0 "[]"]
    reconnect_backoff_bounded[of "(new_manager True)\<lparr>reconnectAttempts := 2\<rparr>" Map.empty "[]" True 0 "[]"]
    reconnect_backoff_bounded[of "fst (run Map.empty
        [call_connect True, ev_close 0, ev_timeout 0, ev_close 1, ev_timeout 0] (new_manager True))"
      Map.empty "[]" True 2 "[]"]
    reconnect_backoff_bounded[of "new_manager True" Map.empty
      "[ev_close 2, ev_timeout 0, ev_close 3]" True 2
      "[call_connect True, ev_close 0, ev_timeout 0, ev_close 1, ev_timeout 0]"]
  by (simp add: manager_defs)

subsection \<open>Deliberate disconnect\<close>

text \<open>
  Against C2 as stated. A channel opens and is lost; a retry is pending in 1000 ms.
  \<^verbatim>\<open>disconnect()\<close> finds \<^verbatim>\<open>this.ws\<close> empty and does nothing: the retry is still pending,
  and when its timer expires \<^verbatim>\<open>connect\<close> runs and the manager holds a new, connecting
  channel. And when \<^verbatim>\<open>disconnect()\<close> closes an open channel, the \<^verbatim>\<open>close\<close> event of that
  channel schedules a retry like any other close.
\<close>

theorem disconnect_reconnects_counterexample:
  "timers (fst (run Map.empty [call_connect True, ev_open 0, ev_close 0, call_disconnect]
                  (new_manager True))) = [(1000, True)]
   \<and> ws (fst (run Map.empty [call_connect True, ev_open 0, ev_close 0, call_disconnect, ev_timeout 0]
                  (new_manager True))) = Some 1
   \<and> map readyState (sockets (fst (run Map.empty
        [call_connect True, ev_open 0, ev_close 0, call_disconnect, ev_timeout 0]
        (new_manager True)))) = [CLOSED, CONNECTING]
   \<and> timers (fst (run Map.empty [call_connect True, ev_open 0, call_disconnect, ev_close 0]
                  (new_manager True))) = [(1000, True)]"
  by (simp add: manager_defs)

text \<open>
  C2, amended. \<^verbatim>\<open>disconnect()\<close> closes the manager's current channel, if there is one,
  and drops the reference to it. It cancels no pending retry and leaves the attempt
  counter as it is. The \<^verbatim>\<open>close\<close> event of the channel it closed runs the same
  \<^verbatim>\<open>onclose\<close> handler as an unexpected close, so while fewer than 5 attempts are counted
  a retry is scheduled \<open>1000 * 2 ^ attempts\<close> ms ahead; and a retry pending at the time of
  the call still opens a new channel when its timer expires.
\<close>

theorem disconnect_keeps_retries:
  "timers (disconnect m) = timers m
   \<and> scheduled (disconnect m) = scheduled m
   \<and> reconnectAttempts (disconnect m) = reconnectAttempts m
   \<and> ws (disconnect m) = None
   \<and> (ws m = Some i \<and> ready m i \<noteq> CLOSED \<and> reconnectAttempts m < maxReconnectAttempts \<longrightarrow>
        ready (disconnect m) i = CLOSING
        \<and> timers (fst (step parse (ev_close i) (disconnect m)))
            = timers m @ [(reconnectDelay * 2 ^ reconnectAttempts m, sock_onError (sockets m ! i))]
        \<and> reconnectAttempts (fst (step parse (ev_close i) (disconnect m))) = reconnectAttempts m + 1)
   \<and> (j < length (timers m) \<and> url_ok m \<longrightarrow>
        ws (fst (step parse (ev_timeout j) (disconnect m))) = Some (length (sockets m)))
   \<and> (ws m = Some i \<and> ready m i \<noteq> CLOSED \<longrightarrow> ready (disconnect m) i = CLOSING)"
proof -
  have closing: "k \<noteq> CONNECTING \<Longrightarrow> k \<noteq> OPEN \<Longrightarrow> k \<noteq> CLOSED \<Longrightarrow> k = CLOSING" for k
    by (cases k) simp_all
  show ?thesis
    by (auto simp: manager_defs closing split: option.splits)
qed

theorem disconnect_keeps_retries_witness:
  "timers (disconnect (fst (run Map.empty [call_connect True, ev_open 0, ev_close 0] (new_manager True))))
     = [(1000, True)]
   \<and> ws (fst (step Map.empty (ev_timeout 0)
        (disconnect (fst (run Map.empty [call_connect True, ev_open 0, ev_close 0] (new_manager True))))))
     = Some 1
   \<and> timers (fst (step Map.empty (ev_close 0)
        (disconnect (fst (run Map.empty [call_connect True, ev_open 0] (new_manager True))))))
     = [(1000, True)]"
  using disconnect_keeps_retries[of
      "fst (run Map.empty [call_connect True, ev_open 0, ev_close 0] (new_manager True))" 0 Map.empty 0]
    disconnect_keeps_retries[of
      "fst (run Map.empty [call_connect True, ev_open 0] (new_manager True))" 0 Map.empty 0]
  by (simp add: manager_defs)

subsection \<open>A second connect\<close>

text \<open>
  Against C9 as stated. With channel 0 open, a second \<^verbatim>\<open>connect\<close> is not a no-op: the
  manager's reference goes to a new channel 1, and channel 0 stays open beside it.
\<close>

theorem second_connect_counterexample:
  "ws (fst (run Map.empty [call_connect True, ev_open 0] (new_manager True))) = Some 0
   \<and> ws (fst (run Map.empty [call_connect True, ev_open 0, call_connect True] (new_manager True)))
       = Some 1
   \<and> map readyState (sockets (fst (run Map.empty [call_connect True, ev_open 0, call_connect True]
        (new_manager True)))) = [OPEN, CONNECTING]"
  by (simp add: manager_defs)

text \<open>
  C9, amended. \<^verbatim>\<open>connect\<close> does not look at the channel it holds. Called while a channel
  is open, it constructs a new channel and stores it as the manager's one reference in
  place of the open channel, which it does not close: the old channel stays open, its
  state and the handlers attached to it untouched, the new one is connecting, the attempt
  counter is unchanged and no callback runs.
\<close>

theorem second_connect_replaces:
  assumes "ws m = Some i" and "ready m i = OPEN" and "url_ok m"
  shows "ws (fst (connect who onErr m)) = Some (length (sockets m))
       \<and> length (sockets m) \<noteq> i
       \<and> ready (fst (connect who onErr m)) i = OPEN
       \<and> ready (fst (connect who onErr m)) (length (sockets m)) = CONNECTING
       \<and> reconnectAttempts (fst (connect who onErr m)) = reconnectAttempts m
       \<and> snd (connect who onErr m) = []
       \<and> sockets (fst (connect who onErr m)) ! i = sockets m ! i"
  using assms by (auto simp: connect_def ready_def nth_append split: if_splits)

theorem second_connect_replaces_witness:
  "ws (fst (run Map.empty [call_connect True, ev_open 0] (new_manager True))) = Some 0
   \<and> ready (fst (run Map.empty [call_connect True, ev_open 0] (new_manager True))) 0 = OPEN
   \<and> ws (fst (connect by_app True (fst (run Map.empty [call_connect True, ev_open 0] (new_manager True)))))
       = Some 1
   \<and> ready (fst (connect by_app True (fst (run Map.empty [call_connect True, ev_open 0] (new_manager True))))) 0
       = OPEN"
  using second_connect_replaces[of
      "fst (run Map.empty [call_connect True, ev_open 0] (new_manager True))" 0 by_app True]
  by (simp add: manager_defs)

subsection \<open>Malformed frames\<close>

lemma but_console_eq:
  "but_console m = but_console m' \<longleftrightarrow>
     ws m = ws m' \<and> url_ok m = url_ok m' \<and> reconnectAttempts m = reconnectAttempts m'
     \<and> sockets m = sockets m' \<and> timers m = timers m' \<and> scheduled m = scheduled m'
     \<and> sent m = sent m'"
  by (cases m; cases m') (simp add: but_console_def)

text \<open>No handler reads the console: managers that differ there only keep doing the same.\<close>

lemma step_but_console:
  assumes "but_console m = but_console m'"
  shows "but_console (fst (step parse e m)) = but_console (fst (step parse e m'))
       \<and> snd (step parse e m) = snd (step parse e m')"
  using assms unfolding but_console_eq
  by (cases e)
     (auto simp: connect_def send_def disconnect_def set_socket_def ready_def
        ws_onopen_def ws_onmessage_def ws_onerror_def ws_onclose_def attemptReconnect_def
        timeout_callback_def Let_def
        split: option.splits sum.splits prod.splits if_splits)

lemma step_malformed:
  assumes "malformed parse e"
  shows "but_console (fst (step parse e m)) = but_console m \<and> snd (step parse e m) = []"
  using assms by (cases e) (auto simp: ws_onmessage_def but_console_def)

lemma sys_run_Cons:
  "sys_run parse ((now, e) # es) (m, v)
     = sys_run parse es (fst (step parse e m), foldl (apply_callback now) v (snd (step parse e m)))"
  by (simp add: case_prod_unfold)

lemma sys_run_drop_malformed:
  assumes "but_console m = but_console m'"
  shows "but_console (fst (sys_run parse es (m, v)))
           = but_console (fst (sys_run parse (filter (\<lambda>ne. \<not> malformed parse (snd ne)) es) (m', v)))
       \<and> snd (sys_run parse es (m, v))
           = snd (sys_run parse (filter (\<lambda>ne. \<not> malformed parse (snd ne)) es) (m', v))"
  using assms
proof (induction es arbitrary: m m' v)
  case Nil
  then show ?case by simp
next
  case (Cons ne es)
  obtain now e where ne: "ne = (now, e)" by (cases ne)
  show ?case
  proof (cases "malformed parse e")
    case True
    from step_malformed[OF True, of m] Cons.prems
    have b: "but_console (fst (step parse e m)) = but_console m'"
      and c: "snd (step parse e m) = []" by simp_all
    from Cons.IH[OF b] c True show ?thesis
      unfolding ne sys_run_Cons by simp
  next
    case False
    from step_but_console[OF Cons.prems, of parse e]
    have b: "but_console (fst (step parse e m)) = but_console (fst (step parse e m'))"
      and c: "snd (step parse e m) = snd (step parse e m')" by simp_all
    from Cons.IH[OF b] c False show ?thesis
      unfolding ne by (simp add: sys_run_Cons del: sys_run.simps)
  qed
qed

text \<open>
  C4. A frame that fails to parse, arriving on an open channel, is logged and dropped:
  the manager is as before but for the console line (same channel, same sockets, same
  counter, no timer), no callback runs, and the component's state is untouched. What
  follows is processed as if the frame had never come: any run of inputs takes the
  component to the same state, and the manager to the same state but for its console, as
  the run without its malformed frames.
\<close>

theorem malformed_frame_dropped:
  assumes "parse d = None" and "ready m i = OPEN"
  shows "sys_run parse [(now, ev_message i d)] (m, v)
           = (m\<lparr>ws_console := ws_console m @ [''Failed to parse WebSocket message:'']\<rparr>, v)
       \<and> snd (sys_run parse es (m, v))
           = snd (sys_run parse (filter (\<lambda>ne. \<not> malformed parse (snd ne)) es) (m, v))
       \<and> but_console (fst (sys_run parse es (m, v)))
           = but_console (fst (sys_run parse (filter (\<lambda>ne. \<not> malformed parse (snd ne)) es) (m, v)))"
  using assms sys_run_drop_malformed[of m m parse es v]
  by (simp add: ws_onmessage_def)

theorem malformed_frame_dropped_witness:
  "sys_run [''t'' \<mapsto> text_chunk ''Hi'', ''d'' \<mapsto> done_chunk]
     [(3, ev_message 0 ''{'')]
     (fst (run Map.empty [call_connect True, ev_open 0] (new_manager True)), initial_voice_chat)
   = ((fst (run Map.empty [call_connect True, ev_open 0] (new_manager True)))
        \<lparr>ws_console := [''Failed to parse WebSocket message:'']\<rparr>, initial_voice_chat)
   \<and> currentResponse (snd (sys_run [''t'' \<mapsto> text_chunk ''Hi'', ''d'' \<mapsto> done_chunk]
       [(3, ev_message 0 ''{''), (4, ev_message 0 ''t'')]
       (fst (run Map.empty [call_connect True, ev_open 0] (new_manager True)), initial_voice_chat)))
     = ''Hi''"
  using malformed_frame_dropped[of "[''t'' \<mapsto> text_chunk ''Hi'', ''d'' \<mapsto> done_chunk]" "''{''"
      "fst (run Map.empty [call_connect True, ev_open 0] (new_manager True))" 0 3 initial_voice_chat
      "[(3, ev_message 0 ''{''), (4, ev_message 0 ''t'')]"]
  by (simp add: new_manager_def connect_def ready_def set_socket_def ws_onopen_def ws_onmessage_def
        onMessage_def initial_voice_chat_def)

end
